theory Spec2Isabelle
  imports Main "HOL-Library.Product_Lexorder" "HOL-Library.Multiset"
begin

section \<open>The relational store of the data collector\<close>

text \<open>
  Timestamps are seconds on the store's clock; \<open>NOW()\<close> is passed to every operation
  as the argument \<open>now\<close>. Status columns are the strings the SQL of
  \<^verbatim>\<open>database/writer.py\<close> compares them with. A nullable column is an option.
\<close>

type_synonym timestamp = int

text \<open>
  A message as the API model \<^verbatim>\<open>api/models.py: Message\<close> declares it and as
  \<open>insert_messages\<close> reads it with \<open>msg.get\<close>. A JSON object is the list of its
  entries.
\<close>

type_synonym json_obj = "(string \<times> string) list"

record message =
  m_message_id :: int
  m_text :: "string option"
  m_date :: timestamp
  m_views :: int
  m_forwards :: int
  m_replies :: int
  m_reactions :: "(string \<times> int) list option"
  m_edit_date :: "timestamp option"
  m_media_type :: "string option"
  m_media_url :: "string option"
  m_media_metadata :: "json_obj option"
  m_author_id :: "int option"
  m_author_name :: "string option"
  m_is_forwarded :: bool
  m_forward_from :: "json_obj option"
  m_reply_to_msg_id :: "int option"
  m_raw_data :: "json_obj option"

text \<open>A row of the table \<open>messages\<close>, one field for each column of the \<open>INSERT\<close>.\<close>

record message_row =
  col_channel_id :: int
  col_message_id :: int
  col_text :: "string option"
  col_date :: timestamp
  col_views :: int
  col_forwards :: int
  col_replies :: int
  col_reactions :: "(string \<times> int) list option"
  col_edit_date :: "timestamp option"
  col_media_type :: "string option"
  col_media_url :: "string option"
  col_media_metadata :: "json_obj option"
  col_author_id :: "int option"
  col_author_name :: "string option"
  col_is_forwarded :: bool
  col_forward_from :: "json_obj option"
  col_reply_to_msg_id :: "int option"
  col_raw_data :: "json_obj option"

record job =
  job_uuid :: string
  job_channel_id :: int
  job_type :: string
  priority :: int
  job_status :: string
  job_worker_id :: "string option"
  created_at :: timestamp
  started_at :: "timestamp option"
  completed_at :: "timestamp option"
  messages_collected :: "int option"
  progress_percent :: int
  error_message :: "string option"
  retry_count :: int

record worker =
  worker_id :: string
  worker_status :: string
  last_heartbeat :: timestamp
  jobs_completed :: int
  jobs_failed :: int
  messages_processed :: int

record channel =
  channel_id :: int
  username :: string
  channel_status :: string
  last_parsed_at :: "timestamp option"
  last_message_date :: "timestamp option"
  updated_at :: "timestamp option"

text \<open>
  A table is the list of its rows. \<open>UPDATE ... WHERE c\<close> rewrites every row that
  satisfies \<open>c\<close> and keeps the others, \<open>DELETE ... WHERE c\<close> drops the rows that satisfy
  \<open>c\<close>.
\<close>

definition sql_update :: "('r \<Rightarrow> bool) \<Rightarrow> ('r \<Rightarrow> 'r) \<Rightarrow> 'r list \<Rightarrow> 'r list" where
  "sql_update c f rows = map (\<lambda>r. if c r then f r else r) rows"

definition sql_delete :: "('r \<Rightarrow> bool) \<Rightarrow> 'r list \<Rightarrow> 'r list" where
  "sql_delete c rows = filter (\<lambda>r. \<not> c r) rows"

record ledger =
  jobs :: "job list"
  workers :: "worker list"
  channels :: "channel list"
  messages :: "message_row list"

definition find_job :: "string \<Rightarrow> ledger \<Rightarrow> job option" where
  "find_job job_id db = find (\<lambda>j. job_uuid j = job_id) (jobs db)"

definition find_worker :: "string \<Rightarrow> ledger \<Rightarrow> worker option" where
  "find_worker wid db = find (\<lambda>w. worker_id w = wid) (workers db)"

subsection \<open>\<^verbatim>\<open>DatabaseWriter.update_job_status\<close>\<close>

text \<open>
  Python's truth test of an optional string: \<open>None\<close> and the empty string are false.
\<close>

fun truthy :: "string option \<Rightarrow> bool" where
  "truthy None = False"
| "truthy (Some s) = (s \<noteq> [])"

text \<open>\<open>messages_collected or 0\<close>.\<close>

fun or_zero :: "int option \<Rightarrow> int" where
  "or_zero None = 0"
| "or_zero (Some n) = n"

text \<open>
  The three branches of the \<open>if\<close>/\<open>elif\<close> chain, each one or two \<open>UPDATE\<close> statements on
  the same connection. No branch reads the current row, and any other status string
  changes nothing.
\<close>

definition update_job_status ::
  "timestamp \<Rightarrow> string \<Rightarrow> string \<Rightarrow> string option \<Rightarrow> int option \<Rightarrow> string option
     \<Rightarrow> ledger \<Rightarrow> ledger" where
  "update_job_status now job_id status wid collected err db =
    (if status = ''running'' then
       db\<lparr>jobs := sql_update (\<lambda>j. job_uuid j = job_id)
         (\<lambda>j. j\<lparr>job_status := status, job_worker_id := wid, started_at := Some now\<rparr>)
         (jobs db)\<rparr>
     else if status = ''completed'' then
       (let db1 = db\<lparr>jobs := sql_update (\<lambda>j. job_uuid j = job_id)
              (\<lambda>j. j\<lparr>job_status := status, completed_at := Some now,
                     messages_collected := collected, progress_percent := 100\<rparr>)
              (jobs db)\<rparr>
        in if truthy wid then
             db1\<lparr>workers := sql_update (\<lambda>w. Some (worker_id w) = wid)
               (\<lambda>w. w\<lparr>jobs_completed := jobs_completed w + 1,
                      messages_processed := messages_processed w + or_zero collected\<rparr>)
               (workers db1)\<rparr>
           else db1)
     else if status = ''failed'' then
       (let db1 = db\<lparr>jobs := sql_update (\<lambda>j. job_uuid j = job_id)
              (\<lambda>j. j\<lparr>job_status := status, completed_at := Some now,
                     error_message := err, retry_count := retry_count j + 1\<rparr>)
              (jobs db)\<rparr>
        in if truthy wid then
             db1\<lparr>workers := sql_update (\<lambda>w. Some (worker_id w) = wid)
               (\<lambda>w. w\<lparr>jobs_failed := jobs_failed w + 1\<rparr>)
               (workers db1)\<rparr>
           else db1)
     else db)"

subsection \<open>\<^verbatim>\<open>DatabaseWriter.cleanup_old_jobs\<close>\<close>

text \<open>
  \<open>completed_at < NOW() - INTERVAL 'days days'\<close>: a day is 86400 seconds, and the
  comparison with a null \<open>completed_at\<close> is not true, so such a row stays.
\<close>

definition expired :: "timestamp \<Rightarrow> int \<Rightarrow> job \<Rightarrow> bool" where
  "expired now days j =
    (case completed_at j of None \<Rightarrow> False | Some t \<Rightarrow> t < now - days * 86400)"

definition cleanup_old_jobs :: "timestamp \<Rightarrow> int \<Rightarrow> ledger \<Rightarrow> ledger" where
  "cleanup_old_jobs now days db =
    db\<lparr>jobs := sql_delete
      (\<lambda>j. (job_status j = ''completed'' \<or> job_status j = ''failed'') \<and> expired now days j)
      (jobs db)\<rparr>"

subsection \<open>The job routes of \<^verbatim>\<open>api/routes.py\<close>\<close>

text \<open>
  A route answers with its body or raises an \<open>HTTPException\<close> with a status code and a
  detail. The job routes pass the caller identity of \<open>verify_token\<close> as \<open>worker_id\<close>;
  \<open>update_job_status\<close> raises nothing of its own, so their \<open>except\<close> branch is taken
  only when the store itself fails, which is outside this model.
\<close>

datatype 'a http = Http200 'a | HttpError int string

definition start_job :: "timestamp \<Rightarrow> string \<Rightarrow> string \<Rightarrow> ledger \<Rightarrow> ledger \<times> (bool \<times> string) http" where
  "start_job now job_id caller db =
    (update_job_status now job_id ''running'' (Some caller) None None db,
     Http200 (True, ''Job started''))"

definition complete_job ::
  "timestamp \<Rightarrow> string \<Rightarrow> int \<Rightarrow> string \<Rightarrow> ledger \<Rightarrow> ledger \<times> (bool \<times> string) http" where
  "complete_job now job_id messages_count caller db =
    (update_job_status now job_id ''completed'' (Some caller) (Some messages_count) None db,
     Http200 (True, ''Job completed''))"

definition fail_job ::
  "timestamp \<Rightarrow> string \<Rightarrow> string \<Rightarrow> string \<Rightarrow> ledger \<Rightarrow> ledger \<times> (bool \<times> string) http" where
  "fail_job now job_id error_msg caller db =
    (update_job_status now job_id ''failed'' (Some caller) None (Some error_msg) db,
     Http200 (True, ''Job marked as failed''))"

text \<open>Concrete rows for the examples below.\<close>

definition mk_job :: "string \<Rightarrow> int \<Rightarrow> int \<Rightarrow> string \<Rightarrow> string option \<Rightarrow> timestamp \<Rightarrow> job" where
  "mk_job jid ch prio st w created =
    \<lparr>job_uuid = jid, job_channel_id = ch, job_type = ''update'', priority = prio,
     job_status = st, job_worker_id = w, created_at = created, started_at = None,
     completed_at = None, messages_collected = None, progress_percent = 0,
     error_message = None, retry_count = 0\<rparr>"

definition mk_worker :: "string \<Rightarrow> worker" where
  "mk_worker w =
    \<lparr>worker_id = w, worker_status = ''active'', last_heartbeat = 0, jobs_completed = 0,
     jobs_failed = 0, messages_processed = 0\<rparr>"

definition mk_channel :: "int \<Rightarrow> string \<Rightarrow> channel" where
  "mk_channel c st =
    \<lparr>channel_id = c, username = ''chan'', channel_status = st, last_parsed_at = None,
     last_message_date = None, updated_at = None\<rparr>"

definition c1_db :: ledger where
  "c1_db = \<lparr>jobs = [mk_job ''j1'' 7 5 ''running'' (Some ''w1'') 10], workers = [],
            channels = [], messages = []\<rparr>"

definition c4_db :: ledger where
  "c4_db = \<lparr>jobs = [(mk_job ''j1'' 7 5 ''completed'' (Some ''w1'') 10)\<lparr>completed_at := Some 15\<rparr>],
            workers = [mk_worker ''w1''], channels = [], messages = []\<rparr>"

definition c8_db :: ledger where
  "c8_db = \<lparr>jobs = [mk_job ''j1'' 7 5 ''running'' (Some ''w1'') 10],
            workers = [mk_worker ''w1'', mk_worker ''w2''], channels = [], messages = []\<rparr>"

subsection \<open>\<^verbatim>\<open>DatabaseWriter.get_worker_jobs\<close>\<close>

text \<open>
  What the code can raise. \<open>PostgresError\<close> is an error the store reports for a
  statement (a constraint violation, invalid data), \<open>ConnectionError\<close> a store that
  cannot be reached, \<open>QueueFull\<close> is \<open>asyncio.QueueFull\<close>, \<open>PyException\<close> a plain
  \<open>Exception\<close> with its message, and \<open>HTTPException\<close> carries the status code and the
  detail.
\<close>

datatype exn =
  QueueFull | PyException string | HTTPException int string | PostgresError string
  | ConnectionError string











subsection \<open>\<^verbatim>\<open>DatabaseWriter.insert_messages\<close>\<close>

text \<open>
  \<open>json.dumps(x) if x else None\<close>: a missing and an empty object are both stored as
  null. The stored JSON text is modelled by the object it encodes.
\<close>

fun json_or_null :: "'a list option \<Rightarrow> 'a list option" where
  "json_or_null None = None"
| "json_or_null (Some []) = None"
| "json_or_null (Some (x # xs)) = Some (x # xs)"

text \<open>The tuple \<open>records.append((...))\<close> builds for one message.\<close>

definition to_record :: "int \<Rightarrow> message \<Rightarrow> message_row" where
  "to_record ch msg =
    \<lparr>col_channel_id = ch, col_message_id = m_message_id msg, col_text = m_text msg,
     col_date = m_date msg, col_views = m_views msg, col_forwards = m_forwards msg,
     col_replies = m_replies msg, col_reactions = json_or_null (m_reactions msg),
     col_edit_date = m_edit_date msg, col_media_type = m_media_type msg,
     col_media_url = m_media_url msg, col_media_metadata = json_or_null (m_media_metadata msg),
     col_author_id = m_author_id msg, col_author_name = m_author_name msg,
     col_is_forwarded = m_is_forwarded msg, col_forward_from = json_or_null (m_forward_from msg),
     col_reply_to_msg_id = m_reply_to_msg_id msg, col_raw_data = json_or_null (m_raw_data msg)\<rparr>"

text \<open>The conflict target \<open>(channel_id, message_id)\<close>.\<close>

definition row_key :: "message_row \<Rightarrow> int \<times> int" where
  "row_key r = (col_channel_id r, col_message_id r)"

text \<open>\<open>DO UPDATE SET\<close>: the five columns taken from the excluded (incoming) row.\<close>

definition do_update_set :: "message_row \<Rightarrow> message_row \<Rightarrow> message_row" where
  "do_update_set excluded r =
    r\<lparr>col_views := col_views excluded, col_forwards := col_forwards excluded,
      col_replies := col_replies excluded, col_reactions := col_reactions excluded,
      col_edit_date := col_edit_date excluded\<rparr>"

text \<open>
  One execution of \<open>INSERT ... ON CONFLICT (channel_id, message_id) DO UPDATE\<close>: the
  row is appended when no stored row has its key, otherwise the stored rows with that
  key are updated.
\<close>

definition upsert :: "message_row \<Rightarrow> message_row list \<Rightarrow> message_row list" where
  "upsert new rows =
    (if \<exists>r\<in>set rows. row_key r = row_key new
     then sql_update (\<lambda>r. row_key r = row_key new) (do_update_set new) rows
     else rows @ [new])"

text \<open>\<open>SELECT MAX(date) FROM messages WHERE channel_id = $1\<close>; null when no row matches.\<close>

definition max_date :: "int \<Rightarrow> message_row list \<Rightarrow> timestamp option" where
  "max_date ch rows =
    (case filter (\<lambda>r. col_channel_id r = ch) rows of
       [] \<Rightarrow> None
     | r # rs \<Rightarrow> Some (fold (\<lambda>r' d. max (col_date r') d) rs (col_date r)))"

text \<open>
  \<open>executemany\<close> runs the statement once for each record, in order; then the channel
  statistics are updated. Both are inside one transaction. The result is the new
  store and the returned count.
\<close>

definition insert_messages :: "timestamp \<Rightarrow> int \<Rightarrow> message list \<Rightarrow> ledger \<Rightarrow> ledger \<times> nat" where
  "insert_messages now ch msgs db =
    (if msgs = [] then (db, 0)
     else
       let records = map (to_record ch) msgs;
           rows = foldl (\<lambda>t r. upsert r t) (messages db) records;
           chans = sql_update (\<lambda>c. channel_id c = ch)
             (\<lambda>c. c\<lparr>last_parsed_at := Some now, last_message_date := max_date ch rows,
                    updated_at := Some now\<rparr>) (channels db)
       in (db\<lparr>messages := rows, channels := chans\<rparr>, length records))"

definition lookup_row :: "int \<times> int \<Rightarrow> message_row list \<Rightarrow> message_row option" where
  "lookup_row k rows = find (\<lambda>r. row_key r = k) rows"

definition mk_message :: "int \<Rightarrow> string \<Rightarrow> timestamp \<Rightarrow> int \<Rightarrow> message" where
  "mk_message i txt d v =
    \<lparr>m_message_id = i, m_text = Some txt, m_date = d, m_views = v, m_forwards = 0,
     m_replies = 0, m_reactions = None, m_edit_date = None, m_media_type = None,
     m_media_url = None, m_media_metadata = None, m_author_id = Some 42,
     m_author_name = Some ''ann'', m_is_forwarded = False, m_forward_from = None,
     m_reply_to_msg_id = None, m_raw_data = None\<rparr>"

definition c2_db :: ledger where
  "c2_db = \<lparr>jobs = [], workers = [], channels = [mk_channel 7 ''active''],
            messages = [to_record 7 (mk_message 1 ''first'' 100 3)]\<rparr>"

section \<open>The ingestion queue of \<^verbatim>\<open>queue/message_queue.py\<close>\<close>

text \<open>
  An awaited call returns a value, raises, or suspends its caller without completing
  (\<open>Blocked\<close>): \<open>await queue.put(x)\<close> on a full \<open>asyncio.Queue\<close> waits for a free slot.
  An operation returns the state it leaves together with its outcome.
\<close>

datatype 'a outcome = Returned 'a | Raised exn | Blocked

record envelope =
  batch_id :: string
  env_worker_id :: string
  env_channel_id :: int
  env_job_id :: "string option"
  env_messages :: "message list"
  received_at :: string
  env_retry_count :: int

text \<open>
  The queue object and the Redis list \<open>message_queue_backup\<close> it writes. \<open>mq_queue\<close>
  has the oldest envelope first. \<open>redis\<close> tells whether \<open>self.redis\<close> is set. The head
  of \<open>redis_list\<close> is the left end of the Redis list; its elements are the JSON texts
  \<open>json.dumps\<close> produces, of a type \<open>'r\<close>, and \<open>dumps\<close> and \<open>loads\<close> are arguments of
  the operations that use them.
\<close>

record 'r message_queue =
  max_size :: int
  mq_queue :: "envelope list"
  redis :: bool
  redis_list :: "'r list"

text \<open>\<open>asyncio.Queue(maxsize)\<close>: a \<open>maxsize\<close> of zero or less means no bound.\<close>

definition full :: "int \<Rightarrow> 'a list \<Rightarrow> bool" where
  "full maxsize q \<longleftrightarrow> 0 < maxsize \<and> maxsize \<le> int (length q)"

text \<open>\<open>await queue.put(x)\<close> never raises \<open>QueueFull\<close>; on a full queue it waits.\<close>

definition queue_put :: "int \<Rightarrow> 'a list \<Rightarrow> 'a \<Rightarrow> 'a list outcome" where
  "queue_put maxsize q x = (if full maxsize q then Blocked else Returned (q @ [x]))"

text \<open>\<open>LPUSH\<close>, \<open>LTRIM key 0 stop\<close>, \<open>RPOP\<close> on a Redis list.\<close>

definition lpush :: "'r \<Rightarrow> 'r list \<Rightarrow> 'r list" where
  "lpush x l = x # l"

definition ltrim0 :: "nat \<Rightarrow> 'r list \<Rightarrow> 'r list" where
  "ltrim0 stop l = take (Suc stop) l"

definition rpop :: "'r list \<Rightarrow> ('r \<times> 'r list) option" where
  "rpop l = (if l = [] then None else Some (last l, butlast l))"

text \<open>
  \<open>add_batch\<close>. The new id (\<open>uuid4\<close>) and the time text are arguments. The \<open>except
  asyncio.QueueFull\<close> branch is the second case.
\<close>

definition add_batch ::
  "(envelope \<Rightarrow> 'r) \<Rightarrow> string \<Rightarrow> string \<Rightarrow> string \<Rightarrow> int \<Rightarrow> message list \<Rightarrow> string option
     \<Rightarrow> 'r message_queue \<Rightarrow> 'r message_queue \<times> string outcome" where
  "add_batch dumps new_id now wid ch msgs job st =
    (let batch_data = \<lparr>batch_id = new_id, env_worker_id = wid, env_channel_id = ch,
           env_job_id = job, env_messages = msgs, received_at = now, env_retry_count = 0\<rparr>
     in case queue_put (max_size st) (mq_queue st) batch_data of
          Blocked \<Rightarrow> (st, Blocked)
        | Raised QueueFull \<Rightarrow> (st, Raised (PyException ''Queue is full''))
        | Raised e \<Rightarrow> (st, Raised e)
        | Returned q \<Rightarrow>
            (let st1 = st\<lparr>mq_queue := q\<rparr>;
                 st2 = (if redis st1
                        then st1\<lparr>redis_list := ltrim0 9999 (lpush (dumps batch_data) (redis_list st1))\<rparr>
                        else st1)
             in (st2, Returned new_id)))"

text \<open>\<open>get_batch\<close>: the oldest envelope, or \<open>None\<close> when the wait times out.\<close>

definition get_batch :: "'r message_queue \<Rightarrow> 'r message_queue \<times> envelope option" where
  "get_batch st =
    (case mq_queue st of [] \<Rightarrow> (st, None) | e # q \<Rightarrow> (st\<lparr>mq_queue := q\<rparr>, Some e))"

text \<open>The loop \<open>while not self.queue.empty(): items.append(self.queue.get_nowait())\<close>.\<close>

fun drain :: "'a list \<Rightarrow> 'a list \<Rightarrow> 'a list \<times> 'a list" where
  "drain [] items = ([], items)"
| "drain (x # q) items = drain q (items @ [x])"

text \<open>\<open>_backup_to_redis\<close>: the key is deleted and refilled only \<open>if items\<close>.\<close>

definition backup_to_redis :: "(envelope \<Rightarrow> 'r) \<Rightarrow> 'r message_queue \<Rightarrow> 'r message_queue" where
  "backup_to_redis dumps st =
    (if \<not> redis st then st
     else
       let (q, items) = drain (mq_queue st) [];
           st1 = st\<lparr>mq_queue := q\<rparr>
       in if items \<noteq> []
          then st1\<lparr>redis_list := foldl (\<lambda>l item. lpush (dumps item) l) [] items\<rparr>
          else st1)"

text \<open>
  The \<open>for\<close> loop of \<open>_restore_from_redis\<close>, with the number of rounds left. A round
  pops the right end of the list; \<open>QueueFull\<close> would end the loop.
\<close>

fun restore_loop :: "('r \<Rightarrow> envelope) \<Rightarrow> nat \<Rightarrow> 'r message_queue \<Rightarrow> 'r message_queue \<times> unit outcome" where
  "restore_loop loads 0 st = (st, Returned ())"
| "restore_loop loads (Suc n) st =
    (case rpop (redis_list st) of
       None \<Rightarrow> restore_loop loads n st
     | Some (item_json, l) \<Rightarrow>
         (let st1 = st\<lparr>redis_list := l\<rparr>
          in case queue_put (max_size st1) (mq_queue st1) (loads item_json) of
               Blocked \<Rightarrow> (st1, Blocked)
             | Raised QueueFull \<Rightarrow> (st1, Returned ())
             | Raised e \<Rightarrow> (st1, Raised e)
             | Returned q \<Rightarrow> restore_loop loads n (st1\<lparr>mq_queue := q\<rparr>)))"

definition restore_from_redis ::
  "('r \<Rightarrow> envelope) \<Rightarrow> 'r message_queue \<Rightarrow> 'r message_queue \<times> unit outcome" where
  "restore_from_redis loads st =
    (if \<not> redis st then (st, Returned ())
     else
       let count = int (length (redis_list st))
       in if count = 0 then (st, Returned ())
          else restore_loop loads (nat (min count (max_size st))) st)"

text \<open>
  Process start: \<open>MessageQueue(redis_url, max_size)\<close> followed by \<open>connect\<close>, over the
  Redis list the previous process left. Process stop: \<open>disconnect\<close>.
\<close>

definition connect :: "('r \<Rightarrow> envelope) \<Rightarrow> int \<Rightarrow> 'r list \<Rightarrow> 'r message_queue \<times> unit outcome" where
  "connect loads maxsize l =
    restore_from_redis loads \<lparr>max_size = maxsize, mq_queue = [], redis = True, redis_list = l\<rparr>"

definition disconnect :: "(envelope \<Rightarrow> 'r) \<Rightarrow> 'r message_queue \<Rightarrow> 'r message_queue" where
  "disconnect dumps st = backup_to_redis dumps st"

definition mk_envelope :: "string \<Rightarrow> int \<Rightarrow> envelope" where
  "mk_envelope i ch =
    \<lparr>batch_id = i, env_worker_id = ''w1'', env_channel_id = ch, env_job_id = None,
     env_messages = [mk_message 1 ''first'' 100 3], received_at = ''t'',
     env_retry_count = 0\<rparr>"

definition full_queue :: "envelope message_queue" where
  "full_queue = \<lparr>max_size = 1, mq_queue = [mk_envelope ''e0'' 7], redis = True,
                 redis_list = [mk_envelope ''e0'' 7]\<rparr>"

definition empty_queue :: "envelope message_queue" where
  "empty_queue = \<lparr>max_size = 2, mq_queue = [], redis = True, redis_list = []\<rparr>"

section \<open>The batch aggregator of \<^verbatim>\<open>queue/batch_processor.py\<close>\<close>

text \<open>
  \<open>current_batch\<close> is a dictionary from channel to pending messages, in insertion
  order. The log records what \<open>_flush_channel\<close> writes to the logger.
\<close>

datatype log_record = FlushedLog nat int | FlushErrorLog int exn

record batch_processor =
  batch_size :: int
  batch_timeout :: int
  current_batch :: "(int \<times> message list) list"
  last_flush :: timestamp
  bp_log :: "log_record list"

text \<open>\<open>d[k] = v\<close> on a dictionary: a present key keeps its place, a new key goes last.\<close>

fun dict_set :: "'k \<Rightarrow> 'v \<Rightarrow> ('k \<times> 'v) list \<Rightarrow> ('k \<times> 'v) list" where
  "dict_set k v [] = [(k, v)]"
| "dict_set k v ((k', v') # d) = (if k' = k then (k, v) # d else (k', v') # dict_set k v d)"

text \<open>
  The writer is the constructor argument \<open>db_writer\<close>: \<open>db_writer ch msgs db\<close> is the
  outcome of \<open>await self.db_writer.insert_messages(ch, msgs)\<close> on the store \<open>db\<close>, either
  an exception, with the store as it was, or the new store and the count.
\<close>

type_synonym 'db writer = "int \<Rightarrow> message list \<Rightarrow> 'db \<Rightarrow> exn + 'db \<times> nat"

text \<open>
  \<open>_flush_channel\<close>: the \<open>except Exception\<close> branch logs the error and changes nothing
  else, whatever the exception is.
\<close>

definition flush_channel ::
  "'db writer \<Rightarrow> int \<Rightarrow> batch_processor \<times> 'db \<Rightarrow> batch_processor \<times> 'db" where
  "flush_channel db_writer ch s =
    (let (bp, db) = s
     in case map_of (current_batch bp) ch of
          None \<Rightarrow> (bp, db)
        | Some msgs \<Rightarrow>
            (if msgs = [] then (bp, db)
             else (case db_writer ch msgs db of
                     Inr (db', n) \<Rightarrow>
                       (bp\<lparr>current_batch := dict_set ch [] (current_batch bp),
                           bp_log := bp_log bp @ [FlushedLog (length msgs) ch]\<rparr>, db')
                   | Inl e \<Rightarrow> (bp\<lparr>bp_log := bp_log bp @ [FlushErrorLog ch e]\<rparr>, db))))"

text \<open>\<open>_process_batch\<close>: extend the channel's list, flush it at \<open>batch_size\<close>.\<close>

definition process_batch ::
  "'db writer \<Rightarrow> envelope \<Rightarrow> batch_processor \<times> 'db \<Rightarrow> batch_processor \<times> 'db" where
  "process_batch db_writer batch_data s =
    (let (bp, db) = s;
         ch = env_channel_id batch_data;
         old = (case map_of (current_batch bp) ch of None \<Rightarrow> [] | Some ms \<Rightarrow> ms);
         new = old @ env_messages batch_data;
         bp1 = bp\<lparr>current_batch := dict_set ch new (current_batch bp)\<rparr>
     in if batch_size bp1 \<le> int (length new) then flush_channel db_writer ch (bp1, db)
        else (bp1, db))"

text \<open>\<open>_flush_all\<close> and \<open>_check_flush\<close>, with the current time as an argument.\<close>

definition flush_all ::
  "'db writer \<Rightarrow> timestamp \<Rightarrow> batch_processor \<times> 'db \<Rightarrow> batch_processor \<times> 'db" where
  "flush_all db_writer now s =
    (if current_batch (fst s) = [] then s
     else
       let (bp, db) = fold (flush_channel db_writer) (map fst (current_batch (fst s))) s
       in (bp\<lparr>last_flush := now\<rparr>, db))"

definition check_flush ::
  "'db writer \<Rightarrow> timestamp \<Rightarrow> batch_processor \<times> 'db \<Rightarrow> batch_processor \<times> 'db" where
  "check_flush db_writer now s =
    (if batch_timeout (fst s) \<le> now - last_flush (fst s) \<and> current_batch (fst s) \<noteq> []
     then flush_all db_writer now s else s)"

text \<open>The writer of \<open>database/writer.py\<close>, and writers whose store fails.\<close>

definition ledger_writer :: "timestamp \<Rightarrow> ledger writer" where
  "ledger_writer now ch msgs db = Inr (insert_messages now ch msgs db)"

definition failing_writer :: "exn \<Rightarrow> ledger writer" where
  "failing_writer e ch msgs db = Inl e"

definition c6_bp :: batch_processor where
  "c6_bp = \<lparr>batch_size = 100, batch_timeout = 5,
            current_batch = [(7, [mk_message 1 ''first'' 100 3, mk_message 2 ''second'' 101 0])],
            last_flush = 0, bp_log = []\<rparr>"

section \<open>The submit route of \<^verbatim>\<open>api/routes.py\<close>\<close>

record message_batch =
  mb_channel_id :: int
  mb_job_id :: "string option"
  mb_messages :: "message list"

record message_response =
  success :: bool
  resp_batch_id :: string
  messages_count :: nat
  resp_message :: string

text \<open>
  \<open>submit_messages\<close>. The whole body is inside \<open>try\<close>, and \<open>except Exception as e\<close>
  turns whatever it raised into \<open>HTTPException(status_code=500, detail=str(e))\<close>.
  \<open>HTTPException\<close> is an \<open>Exception\<close>, so the two validation errors reach that
  handler as well. \<open>str_exn\<close> is \<open>str\<close> on exceptions.
\<close>

definition submit_messages ::
  "(exn \<Rightarrow> string) \<Rightarrow> (envelope \<Rightarrow> 'r) \<Rightarrow> string \<Rightarrow> string \<Rightarrow> message_batch \<Rightarrow> string
     \<Rightarrow> 'r message_queue \<Rightarrow> 'r message_queue \<times> message_response outcome" where
  "submit_messages str_exn dumps new_id now batch wid st =
    (let body =
       (if mb_messages batch = [] then (st, Raised (HTTPException 400 ''Empty message batch''))
        else if 1000 < length (mb_messages batch)
        then (st, Raised (HTTPException 400 ''Batch too large (max 1000 messages)''))
        else (case add_batch dumps new_id now wid (mb_channel_id batch) (mb_messages batch)
                     (mb_job_id batch) st of
                (st', Returned bid) \<Rightarrow>
                  (st', Returned \<lparr>success = True, resp_batch_id = bid,
                     messages_count = length (mb_messages batch),
                     resp_message = ''Messages queued for processing''\<rparr>)
              | (st', Raised e) \<Rightarrow> (st', Raised e)
              | (st', Blocked) \<Rightarrow> (st', Blocked)))
     in case body of
          (st', Raised e) \<Rightarrow> (st', Raised (HTTPException 500 (str_exn e)))
        | (st', Returned r) \<Rightarrow> (st', Returned r)
        | (st', Blocked) \<Rightarrow> (st', Blocked))"

definition empty_batch :: message_batch where
  "empty_batch = \<lparr>mb_channel_id = 7, mb_job_id = None, mb_messages = []\<rparr>"

definition big_batch :: message_batch where
  "big_batch = \<lparr>mb_channel_id = 7, mb_job_id = None,
                mb_messages = replicate 1001 (mk_message 1 ''first'' 100 3)\<rparr>"

definition one_batch :: message_batch where
  "one_batch = \<lparr>mb_channel_id = 7, mb_job_id = None,
                mb_messages = [mk_message 1 ''first'' 100 3]\<rparr>"

section \<open>Lookups after an update\<close>

lemma find_sql_update_same:
  assumes "\<And>r. c r \<Longrightarrow> c (f r)"
  shows "find c (sql_update c f rows) = map_option f (find c rows)"
  using assms by (induction rows) (auto simp: sql_update_def)

lemma find_sql_update_other:
  assumes "\<And>r. p (f r) = p r"
  shows "find p (sql_update c f rows) = map_option (\<lambda>r. if c r then f r else r) (find p rows)"
  using assms by (induction rows) (auto simp: sql_update_def)

lemma find_sql_update_disjoint:
  assumes "\<And>r. p (f r) = p r" and "\<And>r. p r \<Longrightarrow> \<not> c r"
  shows "find p (sql_update c f rows) = find p rows"
  using assms by (induction rows) (auto simp: sql_update_def)

section \<open>The job ledger\<close>

text \<open>
  C1, as stated, fails: job \<open>j1\<close> is \<open>running\<close> and assigned to \<open>w1\<close>; the start-job
  request of the different worker \<open>w2\<close> is answered with success, not with a
  JobAlreadyClaimed condition, and the job is then assigned to \<open>w2\<close>.
\<close>

theorem start_job_other_worker_counterexample:
  "find_job ''j1'' c1_db = Some (mk_job ''j1'' 7 5 ''running'' (Some ''w1'') 10) \<and>
   snd (start_job 20 ''j1'' ''w2'' c1_db) = Http200 (True, ''Job started'') \<and>
   map_option job_worker_id (find_job ''j1'' (fst (start_job 20 ''j1'' ''w2'' c1_db))) =
     Some (Some ''w2'')"
  by (simp add: c1_db_def start_job_def update_job_status_def find_job_def sql_update_def
      mk_job_def)

text \<open>
  C1 (amended): a start-job request for an existing job always succeeds; it is a single
  unconditional update that sets the job to \<open>running\<close>, assigns it to the caller and
  sets \<open>started_at\<close>, whatever the job's state and assigned worker were. A re-claim
  by the worker the running job is assigned to therefore succeeds without error and
  leaves state and assigned worker as they were.
\<close>

theorem start_job_unconditional:
  assumes "find_job job_id db = Some j"
  shows "snd (start_job now job_id caller db) = Http200 (True, ''Job started'') \<and>
         find_job job_id (fst (start_job now job_id caller db)) =
           Some (j\<lparr>job_status := ''running'', job_worker_id := Some caller,
                  started_at := Some now\<rparr>) \<and>
         (job_status j = ''running'' \<and> job_worker_id j = Some caller \<longrightarrow>
            (\<exists>j'. find_job job_id (fst (start_job now job_id caller db)) = Some j' \<and>
               job_status j' = job_status j \<and> job_worker_id j' = job_worker_id j))"
  using assms
  by (simp add: start_job_def update_job_status_def find_job_def find_sql_update_same)

theorem start_job_unconditional_witness:
  "find_job ''j1'' c1_db = Some (mk_job ''j1'' 7 5 ''running'' (Some ''w1'') 10) \<and>
   snd (start_job 20 ''j1'' ''w1'' c1_db) = Http200 (True, ''Job started'') \<and>
   map_option job_status (find_job ''j1'' (fst (start_job 20 ''j1'' ''w1'' c1_db))) =
     Some ''running'' \<and>
   map_option job_worker_id (find_job ''j1'' (fst (start_job 20 ''j1'' ''w1'' c1_db))) =
     Some (Some ''w1'')"
proof -
  have h: "find_job ''j1'' c1_db = Some (mk_job ''j1'' 7 5 ''running'' (Some ''w1'') 10)"
    by (simp add: c1_db_def find_job_def mk_job_def)
  show ?thesis
    using h start_job_unconditional [OF h, of 20 "''w1''"]
    by (simp add: mk_job_def)
qed

text \<open>
  C4, as stated, fails: job \<open>j1\<close> is \<open>completed\<close>, and a start-job request moves it to
  \<open>running\<close>.
\<close>

theorem terminal_job_restarted_counterexample:
  "map_option job_status (find_job ''j1'' c4_db) = Some ''completed'' \<and>
   map_option job_status (find_job ''j1'' (fst (start_job 20 ''j1'' ''w2'' c4_db))) =
     Some ''running''"
  by (simp add: c4_db_def start_job_def update_job_status_def find_job_def sql_update_def
      mk_job_def)

text \<open>
  C4 (amended): \<open>update_job_status\<close> does not read the job's current state, so each
  core operation moves an existing job, terminal or not, to the state it requests
  (\<open>running\<close>, \<open>completed\<close> or \<open>failed\<close>). The retention sweep keeps exactly the jobs
  that are not terminal or whose \<open>completed_at\<close> is missing or not older than the
  retention window; it removes the others.
\<close>

theorem update_job_status_ignores_state:
  assumes "find_job job_id db = Some j"
    and "status = ''running'' \<or> status = ''completed'' \<or> status = ''failed''"
  shows "map_option job_status
           (find_job job_id (update_job_status now job_id status wid collected err db)) =
           Some status \<and>
         (\<forall>j'. j' \<in> set (jobs (cleanup_old_jobs now days db)) \<longleftrightarrow>
           j' \<in> set (jobs db) \<and>
           \<not> ((job_status j' = ''completed'' \<or> job_status j' = ''failed'') \<and>
              (\<exists>t. completed_at j' = Some t \<and> t < now - days * 86400)))"
  using assms
  by (auto simp: update_job_status_def find_job_def find_sql_update_same Let_def
        cleanup_old_jobs_def sql_delete_def expired_def split: option.splits)

theorem update_job_status_ignores_state_witness:
  "map_option job_status (find_job ''j1'' c4_db) = Some ''completed'' \<and>
   map_option job_status
     (find_job ''j1'' (update_job_status 20 ''j1'' ''failed'' (Some ''w1'') None (Some ''boom'') c4_db)) =
     Some ''failed'' \<and>
   jobs (cleanup_old_jobs (15 + 7 * 86400) 7 c4_db) = jobs c4_db \<and>
   jobs (cleanup_old_jobs (16 + 7 * 86400) 7 c4_db) = []"
proof -
  have h: "find_job ''j1'' c4_db =
      Some ((mk_job ''j1'' 7 5 ''completed'' (Some ''w1'') 10)\<lparr>completed_at := Some 15\<rparr>)"
    by (simp add: c4_db_def find_job_def mk_job_def)
  have s: "''failed'' = ''running'' \<or> ''failed'' = ''completed'' \<or> ''failed'' = ''failed''"
    by simp
  have c: "jobs (cleanup_old_jobs (15 + 7 * 86400) 7 c4_db) = jobs c4_db \<and>
      jobs (cleanup_old_jobs (16 + 7 * 86400) 7 c4_db) = []"
    by (simp add: cleanup_old_jobs_def sql_delete_def expired_def c4_db_def mk_job_def)
  show ?thesis
    using h c update_job_status_ignores_state [OF h s, of 20 "Some ''w1''" None "Some ''boom''"]
    by (simp add: mk_job_def)
qed

text \<open>
  C8, as stated, fails: job \<open>j1\<close> is \<open>running\<close> and assigned to \<open>w1\<close>; a complete-job
  request attributed to \<open>w2\<close> makes the job \<open>completed\<close>, leaves the counters of the
  assigned worker \<open>w1\<close> as they were and increments those of \<open>w2\<close>.
\<close>

theorem complete_job_other_worker_counterexample:
  "map_option job_worker_id (find_job ''j1'' c8_db) = Some (Some ''w1'') \<and>
   map_option job_status (find_job ''j1'' (fst (complete_job 30 ''j1'' 5 ''w2'' c8_db))) =
     Some ''completed'' \<and>
   find_worker ''w1'' (fst (complete_job 30 ''j1'' 5 ''w2'' c8_db)) = find_worker ''w1'' c8_db \<and>
   map_option jobs_completed (find_worker ''w2'' (fst (complete_job 30 ''j1'' 5 ''w2'' c8_db))) =
     Some 1"
  by (simp add: c8_db_def complete_job_def update_job_status_def find_job_def find_worker_def
      sql_update_def mk_job_def mk_worker_def)

text \<open>
  C8 (amended): a complete-job request for an existing job makes it \<open>completed\<close> and
  records \<open>messages_collected\<close>, the completion time and progress 100; it adds one to
  \<open>jobs_completed\<close> and the reported count to \<open>messages_processed\<close> of the record of
  the worker the request is attributed to, when that worker has a record, and changes
  the record of no other worker. The job's assigned worker is not consulted.
\<close>

theorem complete_job_counts_caller:
  assumes "find_job job_id db = Some j" and "caller \<noteq> []"
  shows "find_job job_id (fst (complete_job now job_id n caller db)) =
           Some (j\<lparr>job_status := ''completed'', completed_at := Some now,
                  messages_collected := Some n, progress_percent := 100\<rparr>) \<and>
         find_worker caller (fst (complete_job now job_id n caller db)) =
           map_option (\<lambda>w. w\<lparr>jobs_completed := jobs_completed w + 1,
                              messages_processed := messages_processed w + n\<rparr>)
             (find_worker caller db) \<and>
         (\<forall>w'. w' \<noteq> caller \<longrightarrow>
           find_worker w' (fst (complete_job now job_id n caller db)) = find_worker w' db)"
proof (intro conjI allI impI)
  show "find_job job_id (fst (complete_job now job_id n caller db)) =
           Some (j\<lparr>job_status := ''completed'', completed_at := Some now,
                  messages_collected := Some n, progress_percent := 100\<rparr>)"
    using assms
    by (simp add: complete_job_def update_job_status_def find_job_def find_sql_update_same
        Let_def)
  show "find_worker caller (fst (complete_job now job_id n caller db)) =
           map_option (\<lambda>w. w\<lparr>jobs_completed := jobs_completed w + 1,
                              messages_processed := messages_processed w + n\<rparr>)
             (find_worker caller db)"
    using assms
    by (simp add: complete_job_def update_job_status_def find_worker_def
        find_sql_update_same Let_def)
next
  fix w' assume "w' \<noteq> caller"
  then show "find_worker w' (fst (complete_job now job_id n caller db)) = find_worker w' db"
    using assms
    by (simp add: complete_job_def update_job_status_def find_worker_def Let_def)
       (rule find_sql_update_disjoint, simp_all)
qed

theorem complete_job_counts_caller_witness:
  "find_job ''j1'' c8_db = Some (mk_job ''j1'' 7 5 ''running'' (Some ''w1'') 10) \<and>
   ''w1'' \<noteq> [] \<and> ''w2'' \<noteq> ''w1'' \<and>
   map_option job_status (find_job ''j1'' (fst (complete_job 30 ''j1'' 5 ''w1'' c8_db))) =
     Some ''completed'' \<and>
   map_option jobs_completed (find_worker ''w1'' (fst (complete_job 30 ''j1'' 5 ''w1'' c8_db))) =
     Some 1 \<and>
   map_option messages_processed
     (find_worker ''w1'' (fst (complete_job 30 ''j1'' 5 ''w1'' c8_db))) = Some 5 \<and>
   find_worker ''w2'' (fst (complete_job 30 ''j1'' 5 ''w1'' c8_db)) = Some (mk_worker ''w2'')"
proof -
  have h: "find_job ''j1'' c8_db = Some (mk_job ''j1'' 7 5 ''running'' (Some ''w1'') 10)"
    by (simp add: c8_db_def find_job_def mk_job_def)
  have c: "''w1'' \<noteq> []" and d: "''w2'' \<noteq> ''w1''"
    by simp_all
  have w: "find_worker ''w1'' c8_db = Some (mk_worker ''w1'') \<and>
      find_worker ''w2'' c8_db = Some (mk_worker ''w2'')"
    by (simp add: c8_db_def find_worker_def mk_worker_def)
  show ?thesis
    using h c d w complete_job_counts_caller [OF h c, of 30 5]
    by (simp add: mk_worker_def)
qed

section \<open>Job selection\<close>














section \<open>The message store\<close>













section \<open>The ingestion queue\<close>

lemma drain_eq: "drain q items = ([], items @ q)"
  by (induction q arbitrary: items) auto

lemma foldl_lpush: "foldl (\<lambda>l item. lpush (f item) l) acc items = rev (map f items) @ acc"
  by (induction items arbitrary: acc) (auto simp: lpush_def)

lemma backup_to_redis_eq:
  assumes "redis st"
  shows "backup_to_redis dumps st =
    (if mq_queue st = [] then st\<lparr>mq_queue := []\<rparr>
     else st\<lparr>mq_queue := [], redis_list := rev (map dumps (mq_queue st))\<rparr>)"
  using assms by (simp add: backup_to_redis_def drain_eq foldl_lpush)

lemma restore_loop_eq:
  assumes "n \<le> length es"
    and "max_size st \<le> 0 \<or> int (length (mq_queue st)) + int n \<le> max_size st"
    and "redis_list st = rev (map dumps es)"
    and "\<forall>e\<in>set es. loads (dumps e) = e"
  shows "restore_loop loads n st =
    (st\<lparr>redis_list := rev (map dumps (drop n es)), mq_queue := mq_queue st @ take n es\<rparr>,
     Returned ())"
  using assms
proof (induction n arbitrary: st es)
  case 0
  then show ?case by simp
next
  case (Suc n)
  then obtain e es' where es: "es = e # es'" by (cases es) auto
  let ?st1 = "st\<lparr>redis_list := rev (map dumps es'), mq_queue := mq_queue st @ [e]\<rparr>"
  have nf: "\<not> full (max_size st) (mq_queue st)"
    using Suc.prems(2) by (auto simp: full_def)
  have step: "restore_loop loads (Suc n) st = restore_loop loads n ?st1"
    using Suc.prems(3,4) nf es by (simp add: rpop_def queue_put_def)
  have "restore_loop loads n ?st1 =
    (?st1\<lparr>redis_list := rev (map dumps (drop n es')), mq_queue := mq_queue ?st1 @ take n es'\<rparr>,
     Returned ())"
    using Suc.prems es by (intro Suc.IH) auto
  with step es show ?case by simp
qed

text \<open>
  With at least one envelope resident, shutdown and start do what C5 describes: the
  Redis list is replaced by the resident envelopes, and a start with capacity \<open>m\<close>
  recovers the first \<open>min N m\<close> of them in their order, provided \<open>loads\<close> inverts
  \<open>dumps\<close> on them.
\<close>

lemma backup_restore_roundtrip:
  assumes "redis st" and "mq_queue st \<noteq> []"
    and "\<forall>e\<in>set (mq_queue st). loads (dumps e) = e"
  shows "redis_list (disconnect dumps st) = rev (map dumps (mq_queue st)) \<and>
         (\<exists>st'. connect loads m (redis_list (disconnect dumps st)) = (st', Returned ()) \<and>
            mq_queue st' = take (nat (min (int (length (mq_queue st))) m)) (mq_queue st))"
proof -
  let ?q = "mq_queue st"
  let ?n = "nat (min (int (length ?q)) m)"
  let ?s0 = "\<lparr>max_size = m, mq_queue = [], redis = True, redis_list = rev (map dumps ?q)\<rparr>"
  have b: "redis_list (disconnect dumps st) = rev (map dumps ?q)"
    using assms by (simp add: disconnect_def backup_to_redis_eq)
  have "restore_loop loads ?n ?s0 =
      (?s0\<lparr>redis_list := rev (map dumps (drop ?n ?q)), mq_queue := mq_queue ?s0 @ take ?n ?q\<rparr>,
       Returned ())"
    using assms(3) by (intro restore_loop_eq) auto
  then have "connect loads m (rev (map dumps ?q)) =
      (?s0\<lparr>redis_list := rev (map dumps (drop ?n ?q)), mq_queue := take ?n ?q\<rparr>, Returned ())"
    using assms(2) by (simp add: connect_def restore_from_redis_def Let_def)
  with b show ?thesis by simp
qed

text \<open>
  C3: the code at a full queue. The queue of capacity 1 holds one envelope; \<open>add_batch\<close>
  neither returns nor raises, its caller is suspended in \<open>queue.put\<close>, and the state
  is unchanged. The \<open>except asyncio.QueueFull\<close> branch is never taken.
\<close>

theorem add_batch_full_queue_blocks:
  "full (max_size full_queue) (mq_queue full_queue) \<and>
   add_batch (\<lambda>e. e) ''e1'' ''t'' ''w1'' 7 [mk_message 1 ''first'' 100 3] None full_queue =
     (full_queue, Blocked)"
  by (simp add: full_queue_def add_batch_def queue_put_def full_def)

text \<open>
  C5: the code at a shutdown with an empty queue. One envelope is enqueued and taken
  by the consumer; \<open>add_batch\<close> has pushed it on the Redis list and nothing removes
  it. At shutdown no envelope is resident, \<open>_backup_to_redis\<close> skips the delete, the
  list still holds the consumed envelope, and the next start restores it.
\<close>

theorem empty_backup_keeps_stale_store:
  "fst (add_batch (\<lambda>e. e) ''e1'' ''t'' ''w1'' 7 [] None empty_queue) =
     empty_queue\<lparr>mq_queue := [mk_envelope ''e1'' 7\<lparr>env_messages := []\<rparr>],
                 redis_list := [mk_envelope ''e1'' 7\<lparr>env_messages := []\<rparr>]\<rparr> \<and>
   mq_queue (fst (get_batch (fst (add_batch (\<lambda>e. e) ''e1'' ''t'' ''w1'' 7 [] None empty_queue)))) = [] \<and>
   redis_list (disconnect (\<lambda>e. e)
      (fst (get_batch (fst (add_batch (\<lambda>e. e) ''e1'' ''t'' ''w1'' 7 [] None empty_queue))))) =
     [mk_envelope ''e1'' 7\<lparr>env_messages := []\<rparr>] \<and>
   mq_queue (fst (connect (\<lambda>e. e) 2 (redis_list (disconnect (\<lambda>e. e)
      (fst (get_batch (fst (add_batch (\<lambda>e. e) ''e1'' ''t'' ''w1'' 7 [] None empty_queue)))))))) =
     [mk_envelope ''e1'' 7\<lparr>env_messages := []\<rparr>]"
  by (simp add: empty_queue_def add_batch_def queue_put_def full_def lpush_def ltrim0_def
      get_batch_def disconnect_def backup_to_redis_def connect_def restore_from_redis_def
      rpop_def mk_envelope_def numeral_2_eq_2 Let_def)

text \<open>
  C10: the code at an empty batch. The \<open>HTTPException\<close> with status 400 is raised
  inside \<open>try\<close> and caught by \<open>except Exception\<close>, so the request is answered with
  status 500; the queue is unchanged. A batch of 1001 messages is answered alike.
\<close>

theorem submit_empty_batch_answers_500:
  "submit_messages str_exn dumps new_id now empty_batch wid st =
     (st, Raised (HTTPException 500 (str_exn (HTTPException 400 ''Empty message batch''))))"
  by (simp add: submit_messages_def empty_batch_def)

lemma submit_big_batch_answers_500:
  "submit_messages str_exn dumps new_id now big_batch wid st =
     (st, Raised (HTTPException 500
        (str_exn (HTTPException 400 ''Batch too large (max 1000 messages)''))))"
  by (simp add: submit_messages_def big_batch_def)

section \<open>The batch aggregator\<close>

lemma flush_channel_failure:
  assumes "map_of (current_batch bp) ch = Some msgs" and "msgs \<noteq> []"
    and "db_writer ch msgs db = Inl e"
  shows "flush_channel db_writer ch (bp, db) = (bp\<lparr>bp_log := bp_log bp @ [FlushErrorLog ch e]\<rparr>, db)"
  using assms by (simp add: flush_channel_def)

lemma flush_channel_success:
  assumes "map_of (current_batch bp) ch = Some msgs" and "msgs \<noteq> []"
    and "db_writer ch msgs db = Inr (db', n)"
  shows "flush_channel db_writer ch (bp, db) =
    (bp\<lparr>current_batch := dict_set ch [] (current_batch bp),
        bp_log := bp_log bp @ [FlushedLog (length msgs) ch]\<rparr>, db')"
  using assms by (simp add: flush_channel_def)

text \<open>
  C6: when the writer raises on a channel's pending messages, \<open>_flush_channel\<close> leaves
  the accumulator as it was: the same messages in the same order under the channel, and
  the other channels untouched; the store is as it was. The next flush of the channel
  hands these same messages to the writer, so that a writer that then accepts them
  yields its store.
\<close>

theorem flush_failure_keeps_pending:
  assumes "map_of (current_batch bp) ch = Some msgs" and "msgs \<noteq> []"
    and "db_writer ch msgs db = Inl e"
  shows "current_batch (fst (flush_channel db_writer ch (bp, db))) = current_batch bp \<and>
         map_of (current_batch (fst (flush_channel db_writer ch (bp, db)))) ch = Some msgs \<and>
         snd (flush_channel db_writer ch (bp, db)) = db \<and>
         (\<forall>w db' n. w ch msgs db = Inr (db', n) \<longrightarrow>
            snd (flush_channel w ch (flush_channel db_writer ch (bp, db))) = db')"
proof -
  let ?bp1 = "bp\<lparr>bp_log := bp_log bp @ [FlushErrorLog ch e]\<rparr>"
  have f: "flush_channel db_writer ch (bp, db) = (?bp1, db)"
    using assms by (simp add: flush_channel_def)
  have m: "map_of (current_batch ?bp1) ch = Some msgs"
    using assms(1) by simp
  have "snd (flush_channel w ch (?bp1, db)) = db'" if "w ch msgs db = Inr (db', n)" for w db' n
    using flush_channel_success [where db_writer = w and db = db, OF m assms(2) that] by simp
  with f assms(1) show ?thesis by simp
qed

theorem flush_failure_keeps_pending_witness:
  "map_of (current_batch c6_bp) 7 = Some [mk_message 1 ''first'' 100 3, mk_message 2 ''second'' 101 0] \<and>
   failing_writer (ConnectionError ''refused'') 7
     [mk_message 1 ''first'' 100 3, mk_message 2 ''second'' 101 0] c2_db =
     Inl (ConnectionError ''refused'') \<and>
   current_batch (fst (flush_channel (failing_writer (ConnectionError ''refused'')) 7 (c6_bp, c2_db))) =
     current_batch c6_bp \<and>
   map (col_message_id)
     (messages (snd (flush_channel (ledger_writer 200) 7
        (flush_channel (failing_writer (ConnectionError ''refused'')) 7 (c6_bp, c2_db))))) = [1, 2]"
proof -
  let ?ms = "[mk_message 1 ''first'' 100 3, mk_message 2 ''second'' 101 0]"
  have a: "map_of (current_batch c6_bp) 7 = Some ?ms"
    by (simp add: c6_bp_def)
  have b: "?ms \<noteq> []" by simp
  have c: "failing_writer (ConnectionError ''refused'') 7 ?ms c2_db = Inl (ConnectionError ''refused'')"
    by (simp add: failing_writer_def)
  have d: "ledger_writer 200 7 ?ms c2_db = Inr (insert_messages 200 7 ?ms c2_db)"
    by (simp add: ledger_writer_def)
  have v: "map col_message_id (messages (fst (insert_messages 200 7 ?ms c2_db))) = [1, 2]"
    by (simp add: insert_messages_def c2_db_def upsert_def sql_update_def row_key_def
        to_record_def mk_message_def do_update_set_def Let_def)
  from flush_failure_keeps_pending [where db_writer = "failing_writer (ConnectionError ''refused'')"
      and db = c2_db, OF a b c]
  have "current_batch (fst (flush_channel (failing_writer (ConnectionError ''refused'')) 7 (c6_bp, c2_db))) =
      current_batch c6_bp"
    and "\<forall>w db' n. w 7 ?ms c2_db = Inr (db', n) \<longrightarrow>
      snd (flush_channel w 7 (flush_channel (failing_writer (ConnectionError ''refused'')) 7 (c6_bp, c2_db))) = db'"
    by simp_all
  with a c d v show ?thesis
    by (metis prod.collapse)
qed

text \<open>
  C7, as stated, fails: the store rejects the two pending messages of channel 7 as
  invalid input; the error is logged and both messages are still in the accumulator.
\<close>

theorem rejected_batch_kept_counterexample:
  "map_of (current_batch (fst (flush_channel (failing_writer (PostgresError ''invalid input'')) 7
       (c6_bp, c2_db)))) 7 =
     Some [mk_message 1 ''first'' 100 3, mk_message 2 ''second'' 101 0] \<and>
   bp_log (fst (flush_channel (failing_writer (PostgresError ''invalid input'')) 7 (c6_bp, c2_db))) =
     [FlushErrorLog 7 (PostgresError ''invalid input'')]"
  by (simp add: flush_channel_def c6_bp_def failing_writer_def)

text \<open>
  C7 (amended): \<open>_flush_channel\<close> treats every exception of the writer alike, a rejection
  of malformed data included: it logs the error and keeps the pending messages. As long
  as the writer raises on them, each further flush logs the error again and leaves
  accumulator and store as they were.
\<close>

theorem failed_flush_retried_forever:
  assumes "map_of (current_batch bp) ch = Some msgs" and "msgs \<noteq> []"
    and "db_writer ch msgs db = Inl e"
  shows "(flush_channel db_writer ch ^^ n) (bp, db) =
           (bp\<lparr>bp_log := bp_log bp @ replicate n (FlushErrorLog ch e)\<rparr>, db)"
proof (induction n)
  case 0
  then show ?case by simp
next
  case (Suc n)
  let ?bpn = "bp\<lparr>bp_log := bp_log bp @ replicate n (FlushErrorLog ch e)\<rparr>"
  have m: "map_of (current_batch ?bpn) ch = Some msgs"
    using assms(1) by simp
  have "flush_channel db_writer ch (?bpn, db) =
      (?bpn\<lparr>bp_log := bp_log ?bpn @ [FlushErrorLog ch e]\<rparr>, db)"
    using m assms(2,3) by (simp add: flush_channel_def)
  with Suc show ?case
    by (simp add: replicate_append_same)
qed

theorem failed_flush_retried_forever_witness:
  "map_of (current_batch c6_bp) 7 = Some [mk_message 1 ''first'' 100 3, mk_message 2 ''second'' 101 0] \<and>
   (flush_channel (failing_writer (PostgresError ''invalid input'')) 7 ^^ 3) (c6_bp, c2_db) =
     (c6_bp\<lparr>bp_log := replicate 3 (FlushErrorLog 7 (PostgresError ''invalid input''))\<rparr>, c2_db)"
proof -
  let ?ms = "[mk_message 1 ''first'' 100 3, mk_message 2 ''second'' 101 0]"
  have a: "map_of (current_batch c6_bp) 7 = Some ?ms"
    by (simp add: c6_bp_def)
  have b: "?ms \<noteq> []" by simp
  have c: "failing_writer (PostgresError ''invalid input'') 7 ?ms c2_db =
      Inl (PostgresError ''invalid input'')"
    by (simp add: failing_writer_def)
  have l: "bp_log c6_bp = []" by (simp add: c6_bp_def)
  show ?thesis
    using a l failed_flush_retried_forever [where db_writer = "failing_writer (PostgresError ''invalid input'')"
        and db = c2_db and n = 3, OF a b c]
    by simp
qed

end
